theory Spec2Isabelle
  imports Main "HOL-Library.Word"
begin

unbundle bit_operations_syntax

text \<open>
  A model of \<open>custos_sdk.client\<close>, the Python client of the CustosNetwork proxy contract:
  the coroutines \<open>inscribe\<close>, \<open>attest\<close> and \<open>total_cycles\<close> of the class \<open>Custos\<close> and
  their synchronous wrappers.  The builtins the client calls (\<open>bytes.fromhex\<close>,
  \<open>str.encode\<close>, \<open>hashlib.sha256\<close>, \<open>asyncio.run\<close>) are modelled by what they
  compute; the node behind web3 is a parameter.
\<close>

section \<open>Python values used by the client\<close>

text \<open>
  A Python \<open>str\<close> is a sequence of Unicode code points, and \<open>len\<close> counts code points.
  The model keeps each code point as a natural number; a real \<open>str\<close> only holds values
  below \<open>0x110000\<close>.  \<open>bytes\<close> is a list of 8-bit words.
\<close>

type_synonym str = "nat list"
type_synonym byte = "8 word"
type_synonym bytes = "byte list"

definition lit :: "string \<Rightarrow> str" where
  "lit s = map of_char s"

text \<open>
  The exceptions that can leave \<open>inscribe\<close> and \<open>attest\<close>.  \<open>ValueError\<close> carries its
  message; \<open>KeyError\<close> carries the missing key.  \<open>UnicodeEncodeError\<close> is a subclass of
  \<open>ValueError\<close> in Python.  \<open>TimeExhausted\<close> is what web3's
  \<open>wait_for_transaction_receipt\<close> raises when its timeout passes; \<open>Web3Error\<close> stands for
  every other exception of web3, eth_account or the transport.
\<close>

datatype exn =
    ValueError str
  | KeyError str
  | UnicodeEncodeError
  | RuntimeError str
  | TimeExhausted
  | Web3Error str

subsection \<open>Decimal text of a length, for the f-string of the summary check\<close>

function decimal :: "nat \<Rightarrow> str" where
  "decimal n = (if n < 10 then [48 + n] else decimal (n div 10) @ [48 + n mod 10])"
  by pat_completeness auto
termination
  by (relation "measure id") auto

declare decimal.simps [simp del]

subsection \<open>\<open>str.removeprefix\<close>, \<open>bytes.ljust\<close>, \<open>bytes.hex\<close>, \<open>bytes.fromhex\<close>\<close>

fun starts_with :: "str \<Rightarrow> str \<Rightarrow> bool" where
  "starts_with [] s = True"
| "starts_with (p # ps) [] = False"
| "starts_with (p # ps) (c # cs) = (p = c \<and> starts_with ps cs)"

definition removeprefix :: "str \<Rightarrow> str \<Rightarrow> str" where
  "removeprefix p s = (if starts_with p s then drop (length p) s else s)"

definition ljust :: "nat \<Rightarrow> byte \<Rightarrow> bytes \<Rightarrow> bytes" where
  "ljust width fillbyte b = b @ replicate (width - length b) fillbyte"

definition hexdigit :: "nat \<Rightarrow> nat" where
  "hexdigit n = (if n < 10 then 48 + n else 87 + n)"

fun hex :: "bytes \<Rightarrow> str" where
  "hex [] = []"
| "hex (b # bs) = hexdigit (unat b div 16) # hexdigit (unat b mod 16) # hex bs"

text \<open>
  CPython's \<open>bytes.fromhex\<close>: ASCII whitespace (tab, newline, vertical tab, form feed,
  carriage return, space) is skipped before each byte; a byte is two hexadecimal digits
  of either case, with nothing between them; anything else raises \<open>ValueError\<close>.  The
  position that CPython appends to the message is left out.
\<close>

definition Py_ISSPACE :: "nat \<Rightarrow> bool" where
  "Py_ISSPACE c = (c = 32 \<or> (9 \<le> c \<and> c \<le> 13))"

definition digit_value :: "nat \<Rightarrow> nat option" where
  "digit_value c =
     (if 48 \<le> c \<and> c \<le> 57 then Some (c - 48)
      else if 97 \<le> c \<and> c \<le> 102 then Some (c - 87)
      else if 65 \<le> c \<and> c \<le> 70 then Some (c - 55)
      else None)"

definition fromhex_error :: exn where
  "fromhex_error = ValueError (lit ''non-hexadecimal number found in fromhex() arg'')"

fun fromhex :: "str \<Rightarrow> exn + bytes" where
  "fromhex [] = Inr []"
| "fromhex [c] = (if Py_ISSPACE c then Inr [] else Inl fromhex_error)"
| "fromhex (c # d # cs) =
     (if Py_ISSPACE c then fromhex (d # cs)
      else case digit_value c of
             None \<Rightarrow> Inl fromhex_error
           | Some hi \<Rightarrow>
               (case digit_value d of
                  None \<Rightarrow> Inl fromhex_error
                | Some lo \<Rightarrow>
                    (case fromhex cs of
                       Inl e \<Rightarrow> Inl e
                     | Inr bs \<Rightarrow> Inr (of_nat (hi * 16 + lo) # bs))))"

subsection \<open>\<open>str.encode()\<close>: UTF-8\<close>

text \<open>
  Surrogate code points cannot be encoded: \<open>str.encode\<close> raises \<open>UnicodeEncodeError\<close>.
  Numbers from \<open>0x110000\<close> on are no code points and no \<open>str\<close> holds them; the model
  rejects them the same way.
\<close>

definition utf8_char :: "nat \<Rightarrow> bytes option" where
  "utf8_char c =
     (if c < 0x80 then Some [of_nat c]
      else if c < 0x800 then Some [of_nat (0xC0 + c div 64), of_nat (0x80 + c mod 64)]
      else if 0xD800 \<le> c \<and> c < 0xE000 then None
      else if c < 0x10000 then
        Some [of_nat (0xE0 + c div 4096), of_nat (0x80 + c div 64 mod 64),
              of_nat (0x80 + c mod 64)]
      else if c < 0x110000 then
        Some [of_nat (0xF0 + c div 262144), of_nat (0x80 + c div 4096 mod 64),
              of_nat (0x80 + c div 64 mod 64), of_nat (0x80 + c mod 64)]
      else None)"

fun encode :: "str \<Rightarrow> exn + bytes" where
  "encode [] = Inr []"
| "encode (c # cs) =
     (case utf8_char c of
        None \<Rightarrow> Inl UnicodeEncodeError
      | Some bs \<Rightarrow> (case encode cs of Inl e \<Rightarrow> Inl e | Inr rest \<Rightarrow> Inr (bs @ rest)))"

subsection \<open>\<open>hashlib.sha256\<close> (FIPS 180-4)\<close>

type_synonym u32 = "32 word"

definition K256 :: "u32 list" where
  "K256 =
    [0x428A2F98, 0x71374491, 0xB5C0FBCF, 0xE9B5DBA5, 0x3956C25B, 0x59F111F1, 0x923F82A4, 0xAB1C5ED5,
     0xD807AA98, 0x12835B01, 0x243185BE, 0x550C7DC3, 0x72BE5D74, 0x80DEB1FE, 0x9BDC06A7, 0xC19BF174,
     0xE49B69C1, 0xEFBE4786, 0x0FC19DC6, 0x240CA1CC, 0x2DE92C6F, 0x4A7484AA, 0x5CB0A9DC, 0x76F988DA,
     0x983E5152, 0xA831C66D, 0xB00327C8, 0xBF597FC7, 0xC6E00BF3, 0xD5A79147, 0x06CA6351, 0x14292967,
     0x27B70A85, 0x2E1B2138, 0x4D2C6DFC, 0x53380D13, 0x650A7354, 0x766A0ABB, 0x81C2C92E, 0x92722C85,
     0xA2BFE8A1, 0xA81A664B, 0xC24B8B70, 0xC76C51A3, 0xD192E819, 0xD6990624, 0xF40E3585, 0x106AA070,
     0x19A4C116, 0x1E376C08, 0x2748774C, 0x34B0BCB5, 0x391C0CB3, 0x4ED8AA4A, 0x5B9CCA4F, 0x682E6FF3,
     0x748F82EE, 0x78A5636F, 0x84C87814, 0x8CC70208, 0x90BEFFFA, 0xA4506CEB, 0xBEF9A3F7, 0xC67178F2]"

definition H256 :: "u32 list" where
  "H256 = [0x6A09E667, 0xBB67AE85, 0x3C6EF372, 0xA54FF53A,
           0x510E527F, 0x9B05688C, 0x1F83D9AB, 0x5BE0CD19]"

definition rotr :: "nat \<Rightarrow> u32 \<Rightarrow> u32" where
  "rotr n x = word_rotr n x"

definition Ch :: "u32 \<Rightarrow> u32 \<Rightarrow> u32 \<Rightarrow> u32" where
  "Ch x y z = (x AND y) XOR (NOT x AND z)"

definition Maj :: "u32 \<Rightarrow> u32 \<Rightarrow> u32 \<Rightarrow> u32" where
  "Maj x y z = (x AND y) XOR (x AND z) XOR (y AND z)"

definition Sigma0 :: "u32 \<Rightarrow> u32" where
  "Sigma0 x = rotr 2 x XOR rotr 13 x XOR rotr 22 x"

definition Sigma1 :: "u32 \<Rightarrow> u32" where
  "Sigma1 x = rotr 6 x XOR rotr 11 x XOR rotr 25 x"

definition sigma0 :: "u32 \<Rightarrow> u32" where
  "sigma0 x = rotr 7 x XOR rotr 18 x XOR drop_bit 3 x"

definition sigma1 :: "u32 \<Rightarrow> u32" where
  "sigma1 x = rotr 17 x XOR rotr 19 x XOR drop_bit 10 x"

definition be32 :: "bytes \<Rightarrow> u32" where
  "be32 bs = foldl (\<lambda>acc b. push_bit 8 acc OR ucast b) 0 (take 4 bs)"

definition u32_bytes :: "u32 \<Rightarrow> bytes" where
  "u32_bytes w = [ucast (drop_bit 24 w), ucast (drop_bit 16 w), ucast (drop_bit 8 w), ucast w]"

definition u64_bytes :: "64 word \<Rightarrow> bytes" where
  "u64_bytes w = map (\<lambda>i. ucast (drop_bit (8 * (7 - i)) w)) [0..<8]"

definition pad :: "bytes \<Rightarrow> bytes" where
  "pad m = m @ [0x80] @ replicate ((119 - length m mod 64) mod 64) 0
             @ u64_bytes (of_nat (8 * length m))"

fun blocks :: "nat \<Rightarrow> bytes \<Rightarrow> bytes list" where
  "blocks 0 m = []"
| "blocks (Suc n) m = take 64 m # blocks n (drop 64 m)"

fun schedule :: "nat \<Rightarrow> u32 list \<Rightarrow> u32 list" where
  "schedule 0 w = w"
| "schedule (Suc n) w =
     schedule n (w @ [sigma1 (w ! (length w - 2)) + w ! (length w - 7)
                      + sigma0 (w ! (length w - 15)) + w ! (length w - 16)])"

definition block_words :: "bytes \<Rightarrow> u32 list" where
  "block_words b = map (\<lambda>i. be32 (drop (4 * i) b)) [0..<16]"

record sha_state =
  va :: u32  vb :: u32  vc :: u32  vd :: u32
  ve :: u32  vf :: u32  vg :: u32  vh :: u32

definition round256 :: "sha_state \<Rightarrow> u32 \<times> u32 \<Rightarrow> sha_state" where
  "round256 s kw =
     (let t1 = vh s + Sigma1 (ve s) + Ch (ve s) (vf s) (vg s) + fst kw + snd kw;
          t2 = Sigma0 (va s) + Maj (va s) (vb s) (vc s)
      in \<lparr>va = t1 + t2, vb = va s, vc = vb s, vd = vc s,
          ve = vd s + t1, vf = ve s, vg = vf s, vh = vg s\<rparr>)"

definition compress :: "u32 list \<Rightarrow> bytes \<Rightarrow> u32 list" where
  "compress h b =
     (let s0 = \<lparr>va = h ! 0, vb = h ! 1, vc = h ! 2, vd = h ! 3,
                ve = h ! 4, vf = h ! 5, vg = h ! 6, vh = h ! 7\<rparr>;
          s = foldl round256 s0 (zip K256 (schedule 48 (block_words b)))
      in [h ! 0 + va s, h ! 1 + vb s, h ! 2 + vc s, h ! 3 + vd s,
          h ! 4 + ve s, h ! 5 + vf s, h ! 6 + vg s, h ! 7 + vh s])"

definition sha256 :: "bytes \<Rightarrow> bytes" where
  "sha256 m = concat (map u32_bytes (foldl compress H256 (blocks (length (pad m) div 64) (pad m))))"

definition hexdigest :: "bytes \<Rightarrow> str" where
  "hexdigest m = hex (sha256 m)"

section \<open>The contract interface and the node\<close>

type_synonym address = str

text \<open>
  \<open>BLOCK_TYPE_MAP\<close>, the dict literal of the client.  \<open>BLOCK_TYPE_MAP[block]\<close> raises
  \<open>KeyError\<close> for a key that is absent.
\<close>

definition BLOCK_TYPE_MAP :: "str \<rightharpoonup> int" where
  "BLOCK_TYPE_MAP = map_of
     [(lit ''build'', 0),
      (lit ''research'', 1),
      (lit ''market'', 2),
      (lit ''system'', 3),
      (lit ''governance'', 4)]"

text \<open>The two state-changing functions of \<open>PROXY_ABI\<close>, with their arguments.\<close>

datatype contract_call =
    inscribeCycle int str bytes
  | attestProof int bytes bool

record tx_params =
  tx_from :: address
  tx_nonce :: int
  tx_gasPrice :: int

text \<open>
  The transaction dict that \<open>build_transaction\<close> returns, and the receipt of a mined
  transaction.  \<open>logs\<close> holds the data of each event the contract emitted.
\<close>

record transaction =
  to :: address
  call :: contract_call
  params :: tx_params
  gas :: int
  chainId :: int

record signed_transaction =
  raw_transaction :: bytes
  hash :: bytes

record receipt =
  blockNumber :: int
  status :: int
  logs :: "bytes list"

record InscribeResult =
  tx_hash :: str
  proof_hash :: str
  cycle_id :: int
  network_cycle :: int

record AttestResult =
  tx_hash :: str

text \<open>
  The transaction hash that web3 returns is a \<open>HexBytes\<close>; its \<open>hex()\<close> is that of
  \<open>bytes\<close>, without prefix (hexbytes 1.x, which the web3 release with
  \<open>raw_transaction\<close> requires).
\<close>

text \<open>
  The client after \<open>__init__\<close>: the account (its address and its local signing function,
  which may raise), the agent id and the proxy address the contract object is bound to.
\<close>

record account =
  address :: address
  sign_transaction :: "transaction \<Rightarrow> exn + signed_transaction"

record Custos =
  account :: account
  agent_id :: int
  proxy :: address

subsection \<open>Coroutines\<close>

text \<open>
  An \<open>async def\<close> is a computation that either returns, raises, or awaits one of the
  network operations of web3 and goes on with its value.  The client has no \<open>try\<close>: an
  exception raised by an awaited operation leaves the coroutine.
\<close>

datatype 'a coroutine =
    Return 'a
  | Raise exn
  | Await_get_transaction_count address "int \<Rightarrow> 'a coroutine"
  | Await_gas_price "int \<Rightarrow> 'a coroutine"
  | Await_build_transaction address contract_call tx_params "transaction \<Rightarrow> 'a coroutine"
  | Await_send_raw_transaction bytes "bytes \<Rightarrow> 'a coroutine"
  | Await_wait_for_transaction_receipt bytes "receipt \<Rightarrow> 'a coroutine"
  | Await_totalCycles address "int \<Rightarrow> 'a coroutine"

text \<open>The network calls, as a node double records them.\<close>

datatype request =
    Get_transaction_count address
  | Gas_price
  | Build_transaction address contract_call tx_params
  | Send_raw_transaction bytes
  | Wait_for_transaction_receipt bytes
  | TotalCycles address

text \<open>
  The node (with the web3 layer in front of it) is external: each operation takes the
  node's state and answers with a value or an exception.
\<close>

record 's node =
  eth_get_transaction_count :: "address \<Rightarrow> 's \<Rightarrow> (exn + int) \<times> 's"
  eth_gas_price :: "'s \<Rightarrow> (exn + int) \<times> 's"
  contract_build_transaction ::
    "address \<Rightarrow> contract_call \<Rightarrow> tx_params \<Rightarrow> 's \<Rightarrow> (exn + transaction) \<times> 's"
  eth_send_raw_transaction :: "bytes \<Rightarrow> 's \<Rightarrow> (exn + bytes) \<times> 's"
  eth_wait_for_transaction_receipt :: "bytes \<Rightarrow> 's \<Rightarrow> (exn + receipt) \<times> 's"
  contract_totalCycles :: "address \<Rightarrow> 's \<Rightarrow> (exn + int) \<times> 's"

text \<open>The world: the node's state and the network calls made so far.\<close>

type_synonym 's world = "'s \<times> request list"

text \<open>
  One network round trip: the call is recorded, the node answers, and the coroutine goes
  on with the answer or ends with the exception.
\<close>

definition round_trip ::
  "('s \<Rightarrow> (exn + 'b) \<times> 's) \<Rightarrow> request \<Rightarrow> ('b \<Rightarrow> 'a coroutine) \<Rightarrow> 's world
     \<Rightarrow> 'a coroutine \<times> 's world" where
  "round_trip operation rq k w =
     (case operation (fst w) of
        (Inl e, s') \<Rightarrow> (Raise e, (s', snd w @ [rq]))
      | (Inr v, s') \<Rightarrow> (k v, (s', snd w @ [rq])))"

fun step :: "'s node \<Rightarrow> 'a coroutine \<Rightarrow> 's world \<Rightarrow> 'a coroutine \<times> 's world" where
  "step nd (Return x) w = (Return x, w)"
| "step nd (Raise e) w = (Raise e, w)"
| "step nd (Await_get_transaction_count a k) w =
     round_trip (eth_get_transaction_count nd a) (Get_transaction_count a) k w"
| "step nd (Await_gas_price k) w = round_trip (eth_gas_price nd) Gas_price k w"
| "step nd (Await_build_transaction a c p k) w =
     round_trip (contract_build_transaction nd a c p) (Build_transaction a c p) k w"
| "step nd (Await_send_raw_transaction raw k) w =
     round_trip (eth_send_raw_transaction nd raw) (Send_raw_transaction raw) k w"
| "step nd (Await_wait_for_transaction_receipt h k) w =
     round_trip (eth_wait_for_transaction_receipt nd h) (Wait_for_transaction_receipt h) k w"
| "step nd (Await_totalCycles a k) w =
     round_trip (contract_totalCycles nd a) (TotalCycles a) k w"

text \<open>Awaiting a coroutine to its end: every round trip in turn.\<close>

definition then_run ::
  "('s \<Rightarrow> (exn + 'b) \<times> 's) \<Rightarrow> request \<Rightarrow> ('b \<Rightarrow> 's world \<Rightarrow> (exn + 'a) \<times> 's world)
     \<Rightarrow> 's world \<Rightarrow> (exn + 'a) \<times> 's world" where
  "then_run operation rq k w =
     (case operation (fst w) of
        (Inl e, s') \<Rightarrow> (Inl e, (s', snd w @ [rq]))
      | (Inr v, s') \<Rightarrow> k v (s', snd w @ [rq]))"

primrec run :: "'s node \<Rightarrow> 'a coroutine \<Rightarrow> 's world \<Rightarrow> (exn + 'a) \<times> 's world" where
  "run nd (Return x) = (\<lambda>w. (Inr x, w))"
| "run nd (Raise e) = (\<lambda>w. (Inl e, w))"
| "run nd (Await_get_transaction_count a k) =
     then_run (eth_get_transaction_count nd a) (Get_transaction_count a) (\<lambda>v. run nd (k v))"
| "run nd (Await_gas_price k) =
     then_run (eth_gas_price nd) Gas_price (\<lambda>v. run nd (k v))"
| "run nd (Await_build_transaction a c p k) =
     then_run (contract_build_transaction nd a c p) (Build_transaction a c p)
       (\<lambda>v. run nd (k v))"
| "run nd (Await_send_raw_transaction raw k) =
     then_run (eth_send_raw_transaction nd raw) (Send_raw_transaction raw) (\<lambda>v. run nd (k v))"
| "run nd (Await_wait_for_transaction_receipt h k) =
     then_run (eth_wait_for_transaction_receipt nd h) (Wait_for_transaction_receipt h)
       (\<lambda>v. run nd (k v))"
| "run nd (Await_totalCycles a k) =
     then_run (contract_totalCycles nd a) (TotalCycles a) (\<lambda>v. run nd (k v))"

section \<open>The client\<close>

definition inscribe :: "Custos \<Rightarrow> str \<Rightarrow> str \<Rightarrow> str \<Rightarrow> InscribeResult coroutine" where
  "inscribe self block summary content =
     (if length summary > 140
      then Raise (ValueError (lit ''summary must be '' @ [0x2264] @ lit ''140 chars (got ''
                              @ decimal (length summary) @ lit '')''))
      else case BLOCK_TYPE_MAP block of
        None \<Rightarrow> Raise (KeyError block)
      | Some block_type \<Rightarrow>
     (case encode content of
        Inl e \<Rightarrow> Raise e
      | Inr encoded \<Rightarrow>
     (case fromhex (hexdigest encoded) of
        Inl e \<Rightarrow> Raise e
      | Inr digest \<Rightarrow>
     (let content_hash = take 32 digest in
      Await_get_transaction_count (address (account self)) (\<lambda>nonce.
      Await_gas_price (\<lambda>gas_price.
      Await_build_transaction (proxy self) (inscribeCycle block_type summary content_hash)
        \<lparr>tx_from = address (account self), tx_nonce = nonce, tx_gasPrice = gas_price\<rparr> (\<lambda>tx.
      case sign_transaction (account self) tx of
        Inl e \<Rightarrow> Raise e
      | Inr signed_tx \<Rightarrow>
      Await_send_raw_transaction (raw_transaction signed_tx) (\<lambda>tx_hash.
      Await_wait_for_transaction_receipt tx_hash (\<lambda>receipt.
      Await_totalCycles (proxy self) (\<lambda>network_cycle.
      Return \<lparr>InscribeResult.tx_hash = hex tx_hash,
              proof_hash = lit ''0x'' @ hex content_hash,
              cycle_id = blockNumber receipt,
              network_cycle = network_cycle\<rparr>))))))))))"

definition attest :: "Custos \<Rightarrow> str \<Rightarrow> bool \<Rightarrow> AttestResult coroutine" where
  "attest self = (\<lambda>proof_hash valid.
      case fromhex (removeprefix (lit ''0x'') proof_hash) of
        Inl e \<Rightarrow> Raise e
      | Inr ph_bytes \<Rightarrow>
     (let ph32 = take 32 (ljust 32 0 ph_bytes) in
      Await_get_transaction_count (address (account self)) (\<lambda>nonce.
      Await_gas_price (\<lambda>gas_price.
      Await_build_transaction (proxy self) (attestProof (agent_id self) ph32 valid)
        \<lparr>tx_from = address (account self), tx_nonce = nonce, tx_gasPrice = gas_price\<rparr> (\<lambda>tx.
      case sign_transaction (account self) tx of
        Inl e \<Rightarrow> Raise e
      | Inr signed_tx \<Rightarrow>
      Await_send_raw_transaction (raw_transaction signed_tx) (\<lambda>tx_hash.
      Await_wait_for_transaction_receipt tx_hash (\<lambda>_.
      Return \<lparr>AttestResult.tx_hash = hex tx_hash\<rparr>)))))))"

definition total_cycles :: "Custos \<Rightarrow> int coroutine" where
  "total_cycles self = Await_totalCycles (proxy self) (\<lambda>n. Return n)"

subsection \<open>Synchronous wrappers\<close>

text \<open>
  \<open>asyncio.run(main)\<close> starts a new event loop and drives \<open>main\<close> to its end; it raises
  \<open>RuntimeError\<close>, without running \<open>main\<close>, when the calling thread already runs an event
  loop.  \<open>running\<close> says whether the caller is inside a running loop.
\<close>

definition asyncio_run ::
  "'s node \<Rightarrow> 'a coroutine \<Rightarrow> bool \<Rightarrow> 's world \<Rightarrow> (exn + 'a) \<times> 's world" where
  "asyncio_run nd main running w =
     (if running
      then (Inl (RuntimeError (lit ''asyncio.run() cannot be called from a running event loop'')), w)
      else run nd main w)"

definition inscribe_sync ::
  "'s node \<Rightarrow> Custos \<Rightarrow> str \<Rightarrow> str \<Rightarrow> str \<Rightarrow> bool \<Rightarrow> 's world
     \<Rightarrow> (exn + InscribeResult) \<times> 's world" where
  "inscribe_sync nd self block summary content =
     asyncio_run nd (inscribe self block summary content)"

definition attest_sync ::
  "'s node \<Rightarrow> Custos \<Rightarrow> str \<Rightarrow> bool \<Rightarrow> bool \<Rightarrow> 's world
     \<Rightarrow> (exn + AttestResult) \<times> 's world" where
  "attest_sync nd self = (\<lambda>proof_hash valid. asyncio_run nd (attest self proof_hash valid))"

subsection \<open>Two coroutines on one event loop\<close>


text \<open>The coroutine and the world after \<open>n\<close> round trips.\<close>

fun steps :: "nat \<Rightarrow> 's node \<Rightarrow> 'a coroutine \<Rightarrow> 's world \<Rightarrow> 'a coroutine \<times> 's world" where
  "steps 0 nd m w = (m, w)"
| "steps (Suc n) nd m w = (case step nd m w of (m', w') \<Rightarrow> steps n nd m' w')"

text \<open>What the recorded network calls show.\<close>

fun built_call :: "request \<Rightarrow> contract_call list" where
  "built_call (Build_transaction a c p) = [c]"
| "built_call _ = []"



fun hash_argument :: "contract_call \<Rightarrow> bytes" where
  "hash_argument (inscribeCycle block_type summary content_hash) = content_hash"
| "hash_argument (attestProof agent proof valid) = proof"

text \<open>The network calls a coroutine makes when it is awaited on a fresh record.\<close>

definition network_calls :: "'s node \<Rightarrow> 'a coroutine \<Rightarrow> 's \<Rightarrow> request list" where
  "network_calls nd m s = snd (snd (run nd m (s, [])))"

definition built_calls :: "request list \<Rightarrow> contract_call list" where
  "built_calls rqs = concat (map built_call rqs)"



section \<open>A simulated node\<close>

text \<open>
  A node double: the sequence number of the signer is 5 plus the number of transactions
  the node has accepted, the gas price is 10, every submission is accepted with a fixed
  transaction id, and the receipt carries the proof hash the contract emitted.
\<close>

record sim_state =
  accepted :: "bytes list"

definition PROXY_ADDRESS :: address where
  "PROXY_ADDRESS = lit ''0x9B5FD0B02355E954F159F33D7886e4198ee777b9''"

definition sim_proof :: bytes where
  "sim_proof = replicate 32 0x11"

definition sim_node :: "sim_state node" where
  "sim_node =
     \<lparr>eth_get_transaction_count = (\<lambda>a s. (Inr (5 + int (length (accepted s))), s)),
      eth_gas_price = (\<lambda>s. (Inr 10, s)),
      contract_build_transaction =
        (\<lambda>a c p s. (Inr \<lparr>to = a, call = c, params = p, gas = 200000, chainId = 8453\<rparr>, s)),
      eth_send_raw_transaction =
        (\<lambda>raw s. (Inr [0xde, 0xad, 0xbe, 0xef], s\<lparr>accepted := accepted s @ [raw]\<rparr>)),
      eth_wait_for_transaction_receipt =
        (\<lambda>h s. (Inr \<lparr>blockNumber = 1000, status = 1, logs = [sim_proof]\<rparr>, s)),
      contract_totalCycles = (\<lambda>a s. (Inr (41 + int (length (accepted s))), s))\<rparr>"

text \<open>The same node, except that no transaction is ever seen in a block.\<close>

definition stalled_node :: "sim_state node" where
  "stalled_node =
     sim_node\<lparr>eth_wait_for_transaction_receipt := (\<lambda>h s. (Inl TimeExhausted, s))\<rparr>"

text \<open>The same node, except that the contract's counter cannot be read.\<close>

definition counterless_node :: "sim_state node" where
  "counterless_node =
     sim_node\<lparr>contract_totalCycles := (\<lambda>a s. (Inl (Web3Error (lit ''execution reverted'')), s))\<rparr>"

text \<open>A stand-in for the signature: the raw transaction is the sequence number alone.\<close>

definition sim_sign :: "transaction \<Rightarrow> exn + signed_transaction" where
  "sim_sign tx = Inr \<lparr>raw_transaction = [of_int (tx_nonce (params tx))], hash = []\<rparr>"

definition sim_client :: Custos where
  "sim_client =
     \<lparr>account = \<lparr>address = lit ''0xA1'', sign_transaction = sim_sign\<rparr>,
      agent_id = 1,
      proxy = PROXY_ADDRESS\<rparr>"

definition sim_start :: "sim_state world" where
  "sim_start = (\<lparr>accepted = []\<rparr>, [])"

section \<open>Facts about the builtins\<close>


lemma digit_value_hexdigit: "n < 16 \<Longrightarrow> digit_value (hexdigit n) = Some n"
  by (auto simp: digit_value_def hexdigit_def)

lemma hexdigit_not_space: "n < 16 \<Longrightarrow> \<not> Py_ISSPACE (hexdigit n)"
  by (auto simp: Py_ISSPACE_def hexdigit_def)

lemma byte_of_nibbles: "(of_nat (unat b div 16 * 16 + unat b mod 16) :: byte) = b"
  by simp

lemma fromhex_hex: "fromhex (hex bs) = Inr bs"
proof (induction bs)
  case Nil
  show ?case by simp
next
  case (Cons b bs)
  have hi: "unat b div 16 < 16"
  proof -
    have "unat b < 2 ^ LENGTH(8)" by (rule unsigned_less)
    then have "unat b < 256" by simp
    then show ?thesis by simp
  qed
  have lo: "unat b mod 16 < 16" by simp
  show ?case
    using Cons.IH hi lo
    by (simp add: digit_value_hexdigit hexdigit_not_space byte_of_nibbles del: of_nat_add of_nat_mult)
qed

lemma length_compress: "length (compress h b) = 8"
  by (simp add: compress_def Let_def)

lemma length_foldl_compress: "length h = 8 \<Longrightarrow> length (foldl compress h bl) = 8"
  by (induction bl arbitrary: h) (simp_all add: length_compress)

lemma length_concat_u32_bytes: "length (concat (map u32_bytes ws)) = 4 * length ws"
  by (induction ws) (simp_all add: u32_bytes_def)

lemma length_sha256: "length (sha256 m) = 32"
  by (simp add: sha256_def length_concat_u32_bytes length_foldl_compress H256_def)

lemma fromhex_error_only: "fromhex s = Inl e \<Longrightarrow> e = fromhex_error"
  by (induction s arbitrary: e rule: fromhex.induct)
     (auto split: if_splits option.splits sum.splits)

lemma fromhex_rejects:
  "\<forall>c\<in>set s. \<not> Py_ISSPACE c \<Longrightarrow> odd (length s) \<or> (\<exists>c\<in>set s. digit_value c = None)
     \<Longrightarrow> fromhex s = Inl fromhex_error"
proof (induction s rule: fromhex.induct)
  case 1
  then show ?case by simp
next
  case (2 c)
  then show ?case by simp
next
  case (3 c d cs)
  show ?case
  proof (cases "digit_value c")
    case None
    with 3 show ?thesis by simp
  next
    case (Some hi)
    show ?thesis
    proof (cases "digit_value d")
      case None
      with Some 3 show ?thesis by simp
    next
      case lo: (Some lo)
      from 3(3) have sp: "\<not> Py_ISSPACE c" "\<forall>c\<in>set cs. \<not> Py_ISSPACE c" by simp_all
      from 3(4) Some lo have "odd (length cs) \<or> (\<exists>c\<in>set cs. digit_value c = None)"
        by auto
      with 3(2) [OF sp(1) Some lo sp(2)] have "fromhex cs = Inl fromhex_error" .
      with Some lo sp show ?thesis by simp
    qed
  qed
qed

lemma BLOCK_TYPE_MAP_None:
  "BLOCK_TYPE_MAP block = None \<longleftrightarrow>
     block \<notin> {lit ''build'', lit ''research'', lit ''market'', lit ''system'', lit ''governance''}"
  by (simp add: BLOCK_TYPE_MAP_def)

section \<open>Validation before the network\<close>

text \<open>
  C3. A summary of more than 140 characters: \<open>inscribe\<close> raises the \<open>ValueError\<close> of its
  first statement, whatever the node, and the world is unchanged: the node's state is the
  one before the call and no network call was recorded.
\<close>

theorem inscribe_long_summary:
  assumes "140 < length summary"
  shows "run nd (inscribe self block summary content) w =
           (Inl (ValueError (lit ''summary must be '' @ [0x2264] @ lit ''140 chars (got ''
                             @ decimal (length summary) @ lit '')'')), w)"
  using assms by (simp add: inscribe_def)

theorem inscribe_long_summary_witness:
  "140 < length (replicate 141 (120::nat)) \<and>
   run sim_node (inscribe sim_client (lit ''research'') (replicate 141 120) (lit ''content''))
     sim_start =
     (Inl (ValueError (lit ''summary must be '' @ [0x2264] @ lit ''140 chars (got ''
                       @ decimal 141 @ lit '')'')), sim_start)"
  using inscribe_long_summary [of "replicate 141 (120::nat)" sim_node sim_client
      "lit ''research''" "lit ''content''" sim_start]
  by simp

text \<open>
  C4. A category that is none of the five keys of \<open>BLOCK_TYPE_MAP\<close>: \<open>inscribe\<close> raises
  before any network call and leaves the world unchanged.  The exception is the
  \<open>KeyError\<close> of the dict lookup, or the \<open>ValueError\<close> of the summary check, which comes
  first, when the summary is too long as well.
\<close>

theorem inscribe_unknown_category:
  assumes "block \<notin> {lit ''build'', lit ''research'', lit ''market'', lit ''system'',
                      lit ''governance''}"
  shows "run nd (inscribe self block summary content) w =
           (Inl (if 140 < length summary
                 then ValueError (lit ''summary must be '' @ [0x2264] @ lit ''140 chars (got ''
                                  @ decimal (length summary) @ lit '')'')
                 else KeyError block), w)"
proof -
  from assms have "BLOCK_TYPE_MAP block = None"
    by (rule BLOCK_TYPE_MAP_None [THEN iffD2])
  then show ?thesis by (simp add: inscribe_def)
qed

theorem inscribe_unknown_category_witness:
  "lit ''audit'' \<notin> {lit ''build'', lit ''research'', lit ''market'', lit ''system'',
                      lit ''governance''} \<and>
   run sim_node (inscribe sim_client (lit ''audit'') (lit ''summary'') (lit ''content''))
     sim_start = (Inl (KeyError (lit ''audit'')), sim_start)"
proof -
  have h: "lit ''audit'' \<notin> {lit ''build'', lit ''research'', lit ''market'', lit ''system'',
                      lit ''governance''}"
    by (simp add: lit_def)
  show ?thesis
    using h inscribe_unknown_category [OF h, of sim_node sim_client "lit ''summary''"
        "lit ''content''" sim_start]
    by (simp add: lit_def)
qed

section \<open>The proof identifier of an attestation\<close>

lemma removeprefix_0x: "removeprefix (lit ''0x'') (lit ''0x'' @ s) = s"
  by (simp add: removeprefix_def lit_def)

lemma attest_checked:
  fixes proof_hash :: str
  assumes "fromhex (removeprefix (lit ''0x'') proof_hash) = Inr ph_bytes"
  shows "attest self proof_hash valid =
     Await_get_transaction_count (address (account self)) (\<lambda>nonce.
     Await_gas_price (\<lambda>gas_price.
     Await_build_transaction (proxy self)
       (attestProof (agent_id self) (take 32 (ljust 32 0 ph_bytes)) valid)
       \<lparr>tx_from = address (account self), tx_nonce = nonce, tx_gasPrice = gas_price\<rparr> (\<lambda>tx.
     case sign_transaction (account self) tx of
       Inl e \<Rightarrow> Raise e
     | Inr signed_tx \<Rightarrow>
     Await_send_raw_transaction (raw_transaction signed_tx) (\<lambda>tx_hash.
     Await_wait_for_transaction_receipt tx_hash (\<lambda>_.
     Return \<lparr>AttestResult.tx_hash = hex tx_hash\<rparr>)))))"
  using assms by (simp add: attest_def Let_def)

lemma attest_raises_iff:
  fixes proof_hash :: str
  shows "attest self proof_hash valid = Raise e \<longleftrightarrow>
           fromhex (removeprefix (lit ''0x'') proof_hash) = Inl e"
  by (simp add: attest_def Let_def split: sum.splits)

lemma built_calls_simps:
  "built_calls [] = []"
  "built_calls (Build_transaction a c p # rqs) = c # built_calls rqs"
  "built_calls (Get_transaction_count a # rqs) = built_calls rqs"
  "built_calls (Gas_price # rqs) = built_calls rqs"
  "built_calls (Send_raw_transaction raw # rqs) = built_calls rqs"
  "built_calls (Wait_for_transaction_receipt h # rqs) = built_calls rqs"
  "built_calls (TotalCycles a # rqs) = built_calls rqs"
  by (simp_all add: built_calls_def)

lemma sim_node_reads:
  "eth_get_transaction_count sim_node a s = (Inr (5 + int (length (accepted s))), s)"
  "eth_gas_price sim_node s = (Inr 10, s)"
  by (simp_all add: sim_node_def)

text \<open>
  C2. When the proof identifier, with or without the \<open>0x\<close> prefix, decodes to
  \<open>ph_bytes\<close>, the value \<open>attest\<close> passes on is 32 bytes long: \<open>ph_bytes\<close> followed by
  zero bytes when it is shorter than 32, its first 32 bytes when it is longer.  Every
  \<open>attestProof\<close> call that \<open>attest\<close> builds carries exactly this value, and the call is
  built once the two reads of the chain state have succeeded.
\<close>

theorem attest_proof_is_32_bytes:
  fixes proof_hash :: str
  assumes "fromhex (removeprefix (lit ''0x'') proof_hash) = Inr ph_bytes"
  shows "length (take 32 (ljust 32 0 ph_bytes)) = 32
    \<and> (length ph_bytes < 32 \<longrightarrow>
          take 32 (ljust 32 0 ph_bytes) = ph_bytes @ replicate (32 - length ph_bytes) 0)
    \<and> (32 < length ph_bytes \<longrightarrow> take 32 (ljust 32 0 ph_bytes) = take 32 ph_bytes)
    \<and> (\<forall>c \<in> set (built_calls (network_calls nd (attest self proof_hash valid) s)).
          c = attestProof (agent_id self) (take 32 (ljust 32 0 ph_bytes)) valid)
    \<and> (\<forall>nonce s1 gas_price s2.
          eth_get_transaction_count nd (address (account self)) s = (Inr nonce, s1)
          \<and> eth_gas_price nd s1 = (Inr gas_price, s2)
          \<longrightarrow> built_calls (network_calls nd (attest self proof_hash valid) s) =
                [attestProof (agent_id self) (take 32 (ljust 32 0 ph_bytes)) valid])"
proof (intro conjI)
  show "length (take 32 (ljust 32 0 ph_bytes)) = 32"
    by (simp add: ljust_def)
  show "length ph_bytes < 32 \<longrightarrow>
          take 32 (ljust 32 0 ph_bytes) = ph_bytes @ replicate (32 - length ph_bytes) 0"
    by (simp add: ljust_def)
  show "32 < length ph_bytes \<longrightarrow> take 32 (ljust 32 0 ph_bytes) = take 32 ph_bytes"
    by (simp add: ljust_def)
  show "\<forall>c \<in> set (built_calls (network_calls nd (attest self proof_hash valid) s)).
          c = attestProof (agent_id self) (take 32 (ljust 32 0 ph_bytes)) valid"
    by (auto simp: attest_checked [OF assms] network_calls_def then_run_def built_calls_simps
          split: prod.splits sum.splits)
  show "\<forall>nonce s1 gas_price s2.
          eth_get_transaction_count nd (address (account self)) s = (Inr nonce, s1)
          \<and> eth_gas_price nd s1 = (Inr gas_price, s2)
          \<longrightarrow> built_calls (network_calls nd (attest self proof_hash valid) s) =
                [attestProof (agent_id self) (take 32 (ljust 32 0 ph_bytes)) valid]"
    by (auto simp: attest_checked [OF assms] network_calls_def then_run_def built_calls_simps
          split: prod.splits sum.splits)
qed

theorem attest_proof_is_32_bytes_witness:
  "fromhex (removeprefix (lit ''0x'') (lit ''0x'' @ hex (replicate 33 0xAB))) =
     Inr (replicate 33 0xAB)
   \<and> built_calls (network_calls sim_node
         (attest sim_client (lit ''0x'' @ hex (replicate 33 0xAB)) True) \<lparr>accepted = []\<rparr>) =
       [attestProof 1 (replicate 32 0xAB) True]"
proof -
  have long: "fromhex (removeprefix (lit ''0x'') (lit ''0x'' @ hex (replicate 33 0xAB))) =
     Inr (replicate 33 0xAB)"
    by (simp only: removeprefix_0x fromhex_hex)
  have t: "take 32 (ljust 32 0 (replicate 33 (0xAB::byte))) = replicate 32 0xAB"
    by (simp add: ljust_def)
  have "built_calls (network_calls sim_node
         (attest sim_client (lit ''0x'' @ hex (replicate 33 0xAB)) True) \<lparr>accepted = []\<rparr>) =
       [attestProof (agent_id sim_client) (take 32 (ljust 32 0 (replicate 33 0xAB))) True]"
    using attest_proof_is_32_bytes [OF long, of sim_node sim_client True "\<lparr>accepted = []\<rparr>"]
      sim_node_reads
    by blast
  then show ?thesis
    using long by (simp only: t) (simp add: sim_client_def)
qed

text \<open>
  C10, as amended.  When the proof identifier, after the optional \<open>0x\<close> prefix is
  removed, holds no ASCII whitespace and is not hexadecimal (its length is odd, or one of
  its characters is no hexadecimal digit), \<open>attest\<close> raises the \<open>ValueError\<close> of
  \<open>bytes.fromhex\<close> and the world is unchanged: no network call is made.
\<close>

theorem attest_rejects_non_hex:
  fixes proof_hash :: str
  assumes "\<forall>c \<in> set (removeprefix (lit ''0x'') proof_hash). \<not> Py_ISSPACE c"
    and "odd (length (removeprefix (lit ''0x'') proof_hash))
         \<or> (\<exists>c \<in> set (removeprefix (lit ''0x'') proof_hash). digit_value c = None)"
  shows "run nd (attest self proof_hash valid) w =
           (Inl (ValueError (lit ''non-hexadecimal number found in fromhex() arg'')), w)"
  using fromhex_rejects [OF assms] by (simp add: attest_def fromhex_error_def)

theorem attest_rejects_non_hex_witness:
  "removeprefix (lit ''0x'') (lit ''0xabc'') = lit ''abc''
   \<and> odd (length (lit ''abc''))
   \<and> run sim_node (attest sim_client (lit ''0xabc'') True) sim_start =
       (Inl (ValueError (lit ''non-hexadecimal number found in fromhex() arg'')), sim_start)"
proof -
  have r: "removeprefix (lit ''0x'') (lit ''0xabc'') = lit ''abc''"
    by (simp add: removeprefix_def lit_def)
  have a: "\<forall>c \<in> set (removeprefix (lit ''0x'') (lit ''0xabc'')). \<not> Py_ISSPACE c"
    by (simp add: r) (simp add: lit_def Py_ISSPACE_def)
  have b: "odd (length (removeprefix (lit ''0x'') (lit ''0xabc'')))
         \<or> (\<exists>c \<in> set (removeprefix (lit ''0x'') (lit ''0xabc'')). digit_value c = None)"
    by (simp add: r) (simp add: lit_def)
  show ?thesis
    using r attest_rejects_non_hex [OF a b, of sim_node sim_client True sim_start]
    by (simp add: lit_def)
qed

text \<open>
  C10 as stated fails: \<open>bytes.fromhex\<close> skips ASCII whitespace before a byte.  The
  identifier \<open>0x12 34\<close> is not hexadecimal after the prefix (five characters, one of them
  a space), yet \<open>attest\<close> raises nothing and goes through all five network calls.
\<close>

theorem attest_accepts_whitespace:
  "run sim_node (attest sim_client (lit ''0x12 34'') True) sim_start =
     (Inr \<lparr>AttestResult.tx_hash = lit ''deadbeef''\<rparr>,
      (\<lparr>accepted = [[5]]\<rparr>,
       [Get_transaction_count (lit ''0xA1''), Gas_price,
        Build_transaction PROXY_ADDRESS (attestProof 1 ([0x12, 0x34] @ replicate 30 0) True)
          \<lparr>tx_from = lit ''0xA1'', tx_nonce = 5, tx_gasPrice = 10\<rparr>,
        Send_raw_transaction [5],
        Wait_for_transaction_receipt [0xde, 0xad, 0xbe, 0xef]]))"
  by (simp add: attest_def sim_node_def sim_client_def sim_start_def sim_sign_def then_run_def
      lit_def removeprefix_def Py_ISSPACE_def digit_value_def ljust_def hexdigit_def Let_def)

section \<open>What a finished call has done\<close>

lemma run_step: "run nd m w = run nd (fst (step nd m w)) (snd (step nd m w))"
  by (cases m) (auto simp: then_run_def round_trip_def split: prod.splits sum.splits)

lemma inscribe_checked:
  assumes "length summary \<le> 140" and "BLOCK_TYPE_MAP block = Some block_type"
    and "encode content = Inr encoded"
  shows "inscribe self block summary content =
     Await_get_transaction_count (address (account self)) (\<lambda>nonce.
     Await_gas_price (\<lambda>gas_price.
     Await_build_transaction (proxy self) (inscribeCycle block_type summary (sha256 encoded))
       \<lparr>tx_from = address (account self), tx_nonce = nonce, tx_gasPrice = gas_price\<rparr> (\<lambda>tx.
     case sign_transaction (account self) tx of
       Inl e \<Rightarrow> Raise e
     | Inr signed_tx \<Rightarrow>
     Await_send_raw_transaction (raw_transaction signed_tx) (\<lambda>tx_hash.
     Await_wait_for_transaction_receipt tx_hash (\<lambda>receipt.
     Await_totalCycles (proxy self) (\<lambda>network_cycle.
     Return \<lparr>InscribeResult.tx_hash = hex tx_hash,
             proof_hash = lit ''0x'' @ hex (sha256 encoded),
             cycle_id = blockNumber receipt,
             network_cycle = network_cycle\<rparr>))))))"
  using assms by (simp add: inscribe_def hexdigest_def fromhex_hex length_sha256 Let_def)

lemma run_inscribe_Inr:
  assumes "run nd (inscribe self block summary content) (s, rqs) = (Inr r, (s', rqs'))"
  shows "\<exists>block_type encoded nonce s1 gas_price s2 tx s3 signed_tx tx_hash s4 receipt s5
           network_cycle.
      length summary \<le> 140 \<and> BLOCK_TYPE_MAP block = Some block_type
    \<and> encode content = Inr encoded
    \<and> eth_get_transaction_count nd (address (account self)) s = (Inr nonce, s1)
    \<and> eth_gas_price nd s1 = (Inr gas_price, s2)
    \<and> contract_build_transaction nd (proxy self)
          (inscribeCycle block_type summary (sha256 encoded))
          \<lparr>tx_from = address (account self), tx_nonce = nonce, tx_gasPrice = gas_price\<rparr> s2 =
        (Inr tx, s3)
    \<and> sign_transaction (account self) tx = Inr signed_tx
    \<and> eth_send_raw_transaction nd (raw_transaction signed_tx) s3 = (Inr tx_hash, s4)
    \<and> eth_wait_for_transaction_receipt nd tx_hash s4 = (Inr receipt, s5)
    \<and> contract_totalCycles nd (proxy self) s5 = (Inr network_cycle, s')
    \<and> r = \<lparr>InscribeResult.tx_hash = hex tx_hash,
             proof_hash = lit ''0x'' @ hex (sha256 encoded),
             cycle_id = blockNumber receipt,
             network_cycle = network_cycle\<rparr>
    \<and> rqs' = rqs @
          [Get_transaction_count (address (account self)), Gas_price,
           Build_transaction (proxy self) (inscribeCycle block_type summary (sha256 encoded))
             \<lparr>tx_from = address (account self), tx_nonce = nonce, tx_gasPrice = gas_price\<rparr>,
           Send_raw_transaction (raw_transaction signed_tx),
           Wait_for_transaction_receipt tx_hash,
           TotalCycles (proxy self)]"
proof -
  from assms have len: "length summary \<le> 140"
    by (auto simp: inscribe_def split: if_splits)
  from assms len obtain block_type where bt: "BLOCK_TYPE_MAP block = Some block_type"
    by (auto simp: inscribe_def split: option.splits)
  from assms len bt obtain encoded where enc: "encode content = Inr encoded"
    by (auto simp: inscribe_def split: sum.splits)
  note eq = inscribe_checked [OF len bt enc, of self]
  from assms show ?thesis
    unfolding eq using len bt enc
    by (auto simp: then_run_def split: prod.splits sum.splits)
qed


lemma run_steps: "run nd m w = run nd (fst (steps n nd m w)) (snd (steps n nd m w))"
proof (induction n arbitrary: m w)
  case 0
  show ?case by simp
next
  case (Suc n)
  obtain m' w' where st: "step nd m w = (m', w')" by (cases "step nd m w")
  have "run nd m w = run nd m' w'"
    using run_step [of nd m w] st by simp
  also have "\<dots> = run nd (fst (steps n nd m' w')) (snd (steps n nd m' w'))"
    by (rule Suc.IH)
  finally show ?case using st by simp
qed

lemma raise_propagates:
  assumes "steps n nd m w = (Raise e, w')"
  shows "run nd m w = (Inl e, w')"
  using run_steps [of nd m w n] assms by simp

lemma run_attest_Inr:
  fixes proof_hash :: str
  assumes "run nd (attest self proof_hash valid) (s, rqs) = (Inr r, (s', rqs'))"
  shows "\<exists>ph_bytes nonce s1 gas_price s2 tx s3 signed_tx tx_hash s4 receipt.
      fromhex (removeprefix (lit ''0x'') proof_hash) = Inr ph_bytes
    \<and> eth_get_transaction_count nd (address (account self)) s = (Inr nonce, s1)
    \<and> eth_gas_price nd s1 = (Inr gas_price, s2)
    \<and> contract_build_transaction nd (proxy self)
          (attestProof (agent_id self) (take 32 (ljust 32 0 ph_bytes)) valid)
          \<lparr>tx_from = address (account self), tx_nonce = nonce, tx_gasPrice = gas_price\<rparr> s2 =
        (Inr tx, s3)
    \<and> sign_transaction (account self) tx = Inr signed_tx
    \<and> eth_send_raw_transaction nd (raw_transaction signed_tx) s3 = (Inr tx_hash, s4)
    \<and> eth_wait_for_transaction_receipt nd tx_hash s4 = (Inr receipt, s')
    \<and> r = \<lparr>AttestResult.tx_hash = hex tx_hash\<rparr>
    \<and> rqs' = rqs @
          [Get_transaction_count (address (account self)), Gas_price,
           Build_transaction (proxy self)
             (attestProof (agent_id self) (take 32 (ljust 32 0 ph_bytes)) valid)
             \<lparr>tx_from = address (account self), tx_nonce = nonce, tx_gasPrice = gas_price\<rparr>,
           Send_raw_transaction (raw_transaction signed_tx),
           Wait_for_transaction_receipt tx_hash]"
proof -
  from assms obtain ph_bytes where ph: "fromhex (removeprefix (lit ''0x'') proof_hash) = Inr ph_bytes"
    by (auto simp: attest_def split: sum.splits)
  from assms show ?thesis
    unfolding attest_checked [OF ph] using ph
    by (auto simp: then_run_def split: prod.splits sum.splits)
qed

section \<open>Sample runs on the simulated node\<close>

lemma sample_encode: "encode (lit ''content'') = Inr [0x63, 0x6f, 0x6e, 0x74, 0x65, 0x6e, 0x74]"
  by (simp add: lit_def utf8_char_def)

lemma sample_block: "BLOCK_TYPE_MAP (lit ''research'') = Some 1"
  by (simp add: BLOCK_TYPE_MAP_def lit_def)

lemma sample_summary: "length (lit ''summary'') \<le> 140"
  by (simp add: lit_def)

lemmas sample_inscribe =
  inscribe_checked [OF sample_summary sample_block sample_encode, of sim_client]

lemma sample_run:
  "run sim_node (inscribe sim_client (lit ''research'') (lit ''summary'') (lit ''content''))
     sim_start =
   (Inr \<lparr>InscribeResult.tx_hash = lit ''deadbeef'',
         proof_hash = lit ''0x'' @ hex (sha256 [0x63, 0x6f, 0x6e, 0x74, 0x65, 0x6e, 0x74]),
         cycle_id = 1000, network_cycle = 42\<rparr>,
    (\<lparr>accepted = [[5]]\<rparr>,
     [Get_transaction_count (lit ''0xA1''), Gas_price,
      Build_transaction PROXY_ADDRESS
        (inscribeCycle 1 (lit ''summary'') (sha256 [0x63, 0x6f, 0x6e, 0x74, 0x65, 0x6e, 0x74]))
        \<lparr>tx_from = lit ''0xA1'', tx_nonce = 5, tx_gasPrice = 10\<rparr>,
      Send_raw_transaction [5],
      Wait_for_transaction_receipt [0xde, 0xad, 0xbe, 0xef],
      TotalCycles PROXY_ADDRESS]))"
  unfolding sample_inscribe
  by (simp add: sim_node_def sim_client_def sim_start_def sim_sign_def then_run_def
      hexdigit_def) (simp add: lit_def)

lemma steps_numeral:
  "steps (numeral k) nd m w = (case step nd m w of (m', w') \<Rightarrow> steps (pred_numeral k) nd m' w')"
  by (simp add: numeral_eq_Suc)

lemma sample_stalled:
  "steps 5 stalled_node
     (inscribe sim_client (lit ''research'') (lit ''summary'') (lit ''content'')) sim_start =
   (Raise TimeExhausted,
    (\<lparr>accepted = [[5]]\<rparr>,
     [Get_transaction_count (lit ''0xA1''), Gas_price,
      Build_transaction PROXY_ADDRESS
        (inscribeCycle 1 (lit ''summary'') (sha256 [0x63, 0x6f, 0x6e, 0x74, 0x65, 0x6e, 0x74]))
        \<lparr>tx_from = lit ''0xA1'', tx_nonce = 5, tx_gasPrice = 10\<rparr>,
      Send_raw_transaction [5],
      Wait_for_transaction_receipt [0xde, 0xad, 0xbe, 0xef]]))"
  unfolding sample_inscribe
  by (simp add: stalled_node_def sim_node_def sim_client_def sim_start_def sim_sign_def
      round_trip_def steps_numeral)

section \<open>Results and failures\<close>

text \<open>
  C5, as amended.  \<open>inscribe\<close> returns a result only when every step has succeeded, in
  this order: the local checks, the read of the sequence number, the read of the gas
  price, the build, the signature, the submission, the wait for the receipt and the read
  of the contract's counter; every field of the result is then filled from these
  answers.  \<open>attest\<close> returns a result only when its steps have succeeded up to the wait
  for the receipt; it reads no counter.  Whenever either coroutine reaches an exception,
  its own or one an awaited operation raised, the caller gets exactly that exception.
\<close>

theorem result_only_after_confirmation:
  fixes proof_hash :: str
  shows
   "(run nd (inscribe self block summary content) (s, rqs) = (Inr r, (s', rqs')) \<longrightarrow>
      (\<exists>block_type encoded nonce s1 gas_price s2 tx s3 signed_tx tx_hash s4 receipt s5
          network_cycle.
          length summary \<le> 140 \<and> BLOCK_TYPE_MAP block = Some block_type
        \<and> encode content = Inr encoded
        \<and> eth_get_transaction_count nd (address (account self)) s = (Inr nonce, s1)
        \<and> eth_gas_price nd s1 = (Inr gas_price, s2)
        \<and> contract_build_transaction nd (proxy self)
              (inscribeCycle block_type summary (sha256 encoded))
              \<lparr>tx_from = address (account self), tx_nonce = nonce, tx_gasPrice = gas_price\<rparr>
              s2 = (Inr tx, s3)
        \<and> sign_transaction (account self) tx = Inr signed_tx
        \<and> eth_send_raw_transaction nd (raw_transaction signed_tx) s3 = (Inr tx_hash, s4)
        \<and> eth_wait_for_transaction_receipt nd tx_hash s4 = (Inr receipt, s5)
        \<and> contract_totalCycles nd (proxy self) s5 = (Inr network_cycle, s')
        \<and> r = \<lparr>InscribeResult.tx_hash = hex tx_hash,
                 proof_hash = lit ''0x'' @ hex (sha256 encoded),
                 cycle_id = blockNumber receipt,
                 network_cycle = network_cycle\<rparr>
        \<and> rqs' = rqs @
              [Get_transaction_count (address (account self)), Gas_price,
               Build_transaction (proxy self)
                 (inscribeCycle block_type summary (sha256 encoded))
                 \<lparr>tx_from = address (account self), tx_nonce = nonce,
                  tx_gasPrice = gas_price\<rparr>,
               Send_raw_transaction (raw_transaction signed_tx),
               Wait_for_transaction_receipt tx_hash,
               TotalCycles (proxy self)]))
  \<and> (run nd (attest self proof_hash valid) (s, rqs) = (Inr ra, (sa, rqsa)) \<longrightarrow>
      (\<exists>ph_bytes nonce s1 gas_price s2 tx s3 signed_tx tx_hash s4 receipt.
          fromhex (removeprefix (lit ''0x'') proof_hash) = Inr ph_bytes
        \<and> eth_get_transaction_count nd (address (account self)) s = (Inr nonce, s1)
        \<and> eth_gas_price nd s1 = (Inr gas_price, s2)
        \<and> contract_build_transaction nd (proxy self)
              (attestProof (agent_id self) (take 32 (ljust 32 0 ph_bytes)) valid)
              \<lparr>tx_from = address (account self), tx_nonce = nonce, tx_gasPrice = gas_price\<rparr>
              s2 = (Inr tx, s3)
        \<and> sign_transaction (account self) tx = Inr signed_tx
        \<and> eth_send_raw_transaction nd (raw_transaction signed_tx) s3 = (Inr tx_hash, s4)
        \<and> eth_wait_for_transaction_receipt nd tx_hash s4 = (Inr receipt, sa)
        \<and> ra = \<lparr>AttestResult.tx_hash = hex tx_hash\<rparr>
        \<and> rqsa = rqs @
              [Get_transaction_count (address (account self)), Gas_price,
               Build_transaction (proxy self)
                 (attestProof (agent_id self) (take 32 (ljust 32 0 ph_bytes)) valid)
                 \<lparr>tx_from = address (account self), tx_nonce = nonce,
                  tx_gasPrice = gas_price\<rparr>,
               Send_raw_transaction (raw_transaction signed_tx),
               Wait_for_transaction_receipt tx_hash]))
  \<and> (steps n nd (inscribe self block summary content) w = (Raise e, w') \<longrightarrow>
        run nd (inscribe self block summary content) w = (Inl e, w'))
  \<and> (steps n nd (attest self proof_hash valid) w = (Raise e, w') \<longrightarrow>
        run nd (attest self proof_hash valid) w = (Inl e, w'))"
  using run_inscribe_Inr [of nd self block summary content s rqs r s' rqs']
    run_attest_Inr [of nd self proof_hash valid s rqs ra sa rqsa]
    raise_propagates [of n nd "inscribe self block summary content" w e w']
    raise_propagates [of n nd "attest self proof_hash valid" w e w']
  by blast

theorem result_only_after_confirmation_witness:
  "run sim_node (inscribe sim_client (lit ''research'') (lit ''summary'') (lit ''content''))
     sim_start =
   (Inr \<lparr>InscribeResult.tx_hash = lit ''deadbeef'',
         proof_hash = lit ''0x'' @ hex (sha256 [0x63, 0x6f, 0x6e, 0x74, 0x65, 0x6e, 0x74]),
         cycle_id = 1000, network_cycle = 42\<rparr>,
    (\<lparr>accepted = [[5]]\<rparr>,
     [Get_transaction_count (lit ''0xA1''), Gas_price,
      Build_transaction PROXY_ADDRESS
        (inscribeCycle 1 (lit ''summary'') (sha256 [0x63, 0x6f, 0x6e, 0x74, 0x65, 0x6e, 0x74]))
        \<lparr>tx_from = lit ''0xA1'', tx_nonce = 5, tx_gasPrice = 10\<rparr>,
      Send_raw_transaction [5],
      Wait_for_transaction_receipt [0xde, 0xad, 0xbe, 0xef],
      TotalCycles PROXY_ADDRESS]))
   \<and> contract_totalCycles sim_node PROXY_ADDRESS \<lparr>accepted = [[5]]\<rparr> =
       (Inr 42, \<lparr>accepted = [[5]]\<rparr>)
   \<and> steps 5 stalled_node
       (inscribe sim_client (lit ''research'') (lit ''summary'') (lit ''content'')) sim_start =
     (Raise TimeExhausted,
      (\<lparr>accepted = [[5]]\<rparr>,
       [Get_transaction_count (lit ''0xA1''), Gas_price,
        Build_transaction PROXY_ADDRESS
          (inscribeCycle 1 (lit ''summary'') (sha256 [0x63, 0x6f, 0x6e, 0x74, 0x65, 0x6e, 0x74]))
          \<lparr>tx_from = lit ''0xA1'', tx_nonce = 5, tx_gasPrice = 10\<rparr>,
        Send_raw_transaction [5],
        Wait_for_transaction_receipt [0xde, 0xad, 0xbe, 0xef]]))
   \<and> run stalled_node
       (inscribe sim_client (lit ''research'') (lit ''summary'') (lit ''content'')) sim_start =
     (Inl TimeExhausted,
      (\<lparr>accepted = [[5]]\<rparr>,
       [Get_transaction_count (lit ''0xA1''), Gas_price,
        Build_transaction PROXY_ADDRESS
          (inscribeCycle 1 (lit ''summary'') (sha256 [0x63, 0x6f, 0x6e, 0x74, 0x65, 0x6e, 0x74]))
          \<lparr>tx_from = lit ''0xA1'', tx_nonce = 5, tx_gasPrice = 10\<rparr>,
        Send_raw_transaction [5],
        Wait_for_transaction_receipt [0xde, 0xad, 0xbe, 0xef]]))"
proof -
  have tc: "contract_totalCycles sim_node PROXY_ADDRESS \<lparr>accepted = [[5]]\<rparr> =
       (Inr 42, \<lparr>accepted = [[5]]\<rparr>)"
    by (simp add: sim_node_def)
  from result_only_after_confirmation [of stalled_node sim_client "lit ''research''"
      "lit ''summary''" "lit ''content''" _ _ _ _ _ "lit ''0x1234''" True _ _ _ 5 sim_start
      TimeExhausted] sample_stalled
  have "run stalled_node
       (inscribe sim_client (lit ''research'') (lit ''summary'') (lit ''content'')) sim_start =
     (Inl TimeExhausted,
      (\<lparr>accepted = [[5]]\<rparr>,
       [Get_transaction_count (lit ''0xA1''), Gas_price,
        Build_transaction PROXY_ADDRESS
          (inscribeCycle 1 (lit ''summary'') (sha256 [0x63, 0x6f, 0x6e, 0x74, 0x65, 0x6e, 0x74]))
          \<lparr>tx_from = lit ''0xA1'', tx_nonce = 5, tx_gasPrice = 10\<rparr>,
        Send_raw_transaction [5],
        Wait_for_transaction_receipt [0xde, 0xad, 0xbe, 0xef]]))"
    by blast
  with sample_run sample_stalled tc show ?thesis by blast
qed

text \<open>
  C5 as stated fails for \<open>attest\<close>: on a node whose counter cannot be read, \<open>attest\<close>
  returns its result after the wait for the receipt, and no counter read is among its
  network calls.
\<close>

theorem attest_result_without_counter_read:
  "run counterless_node (attest sim_client (lit ''0x1234'') True) sim_start =
     (Inr \<lparr>AttestResult.tx_hash = lit ''deadbeef''\<rparr>,
      (\<lparr>accepted = [[5]]\<rparr>,
       [Get_transaction_count (lit ''0xA1''), Gas_price,
        Build_transaction PROXY_ADDRESS (attestProof 1 ([0x12, 0x34] @ replicate 30 0) True)
          \<lparr>tx_from = lit ''0xA1'', tx_nonce = 5, tx_gasPrice = 10\<rparr>,
        Send_raw_transaction [5],
        Wait_for_transaction_receipt [0xde, 0xad, 0xbe, 0xef]]))"
  by (simp add: attest_def counterless_node_def sim_node_def sim_client_def sim_start_def sim_sign_def then_run_def
      lit_def removeprefix_def Py_ISSPACE_def digit_value_def ljust_def hexdigit_def Let_def)

text \<open>
  C7. When the wait for the receipt ends with web3's timeout exception, after a
  submission that succeeded, \<open>inscribe\<close> ends with that exception: it returns no result
  and makes no further network call.  The wait is bounded by web3 (the client passes no
  timeout of its own, so web3's default applies); the client adds no loop around it.
\<close>

theorem inscribe_confirmation_timeout:
  fixes tx_hash :: bytes
  assumes "length summary \<le> 140" and "BLOCK_TYPE_MAP block = Some block_type"
    and "encode content = Inr encoded"
    and "eth_get_transaction_count nd (address (account self)) s = (Inr nonce, s1)"
    and "eth_gas_price nd s1 = (Inr gas_price, s2)"
    and "contract_build_transaction nd (proxy self)
           (inscribeCycle block_type summary (sha256 encoded))
           \<lparr>tx_from = address (account self), tx_nonce = nonce, tx_gasPrice = gas_price\<rparr> s2 =
         (Inr tx, s3)"
    and "sign_transaction (account self) tx = Inr signed_tx"
    and "eth_send_raw_transaction nd (raw_transaction signed_tx) s3 = (Inr tx_hash, s4)"
    and "eth_wait_for_transaction_receipt nd tx_hash s4 = (Inl TimeExhausted, s5)"
  shows "run nd (inscribe self block summary content) (s, rqs) =
    (Inl TimeExhausted,
     (s5, rqs @
       [Get_transaction_count (address (account self)), Gas_price,
        Build_transaction (proxy self) (inscribeCycle block_type summary (sha256 encoded))
          \<lparr>tx_from = address (account self), tx_nonce = nonce, tx_gasPrice = gas_price\<rparr>,
        Send_raw_transaction (raw_transaction signed_tx),
        Wait_for_transaction_receipt tx_hash]))"
  unfolding inscribe_checked [OF assms(1-3)]
  using assms(4-9) by (simp add: then_run_def)

theorem inscribe_confirmation_timeout_witness:
  "length (lit ''summary'') \<le> 140
   \<and> BLOCK_TYPE_MAP (lit ''research'') = Some 1
   \<and> encode (lit ''content'') = Inr [0x63, 0x6f, 0x6e, 0x74, 0x65, 0x6e, 0x74]
   \<and> eth_wait_for_transaction_receipt stalled_node [0xde, 0xad, 0xbe, 0xef]
         \<lparr>accepted = [[5]]\<rparr> = (Inl TimeExhausted, \<lparr>accepted = [[5]]\<rparr>)
   \<and> run stalled_node
         (inscribe sim_client (lit ''research'') (lit ''summary'') (lit ''content''))
         (\<lparr>accepted = []\<rparr>, []) =
       (Inl TimeExhausted,
        (\<lparr>accepted = [[5]]\<rparr>,
         [Get_transaction_count (lit ''0xA1''), Gas_price,
          Build_transaction PROXY_ADDRESS
            (inscribeCycle 1 (lit ''summary'') (sha256 [0x63, 0x6f, 0x6e, 0x74, 0x65, 0x6e, 0x74]))
            \<lparr>tx_from = lit ''0xA1'', tx_nonce = 5, tx_gasPrice = 10\<rparr>,
          Send_raw_transaction [5],
          Wait_for_transaction_receipt [0xde, 0xad, 0xbe, 0xef]]))"
proof -
  have 1: "eth_get_transaction_count stalled_node (address (account sim_client))
             \<lparr>accepted = []\<rparr> = (Inr 5, \<lparr>accepted = []\<rparr>)"
    by (simp add: stalled_node_def sim_node_def)
  have 2: "eth_gas_price stalled_node \<lparr>accepted = []\<rparr> = (Inr 10, \<lparr>accepted = []\<rparr>)"
    by (simp add: stalled_node_def sim_node_def)
  have 3: "contract_build_transaction stalled_node (proxy sim_client)
             (inscribeCycle 1 (lit ''summary'') (sha256 [0x63, 0x6f, 0x6e, 0x74, 0x65, 0x6e, 0x74]))
             \<lparr>tx_from = address (account sim_client), tx_nonce = 5, tx_gasPrice = 10\<rparr>
             \<lparr>accepted = []\<rparr> =
           (Inr \<lparr>to = PROXY_ADDRESS,
                 call = inscribeCycle 1 (lit ''summary'')
                          (sha256 [0x63, 0x6f, 0x6e, 0x74, 0x65, 0x6e, 0x74]),
                 params = \<lparr>tx_from = lit ''0xA1'', tx_nonce = 5, tx_gasPrice = 10\<rparr>,
                 gas = 200000, chainId = 8453\<rparr>, \<lparr>accepted = []\<rparr>)"
    by (simp add: stalled_node_def sim_node_def sim_client_def)
  have 4: "sign_transaction (account sim_client)
             \<lparr>to = PROXY_ADDRESS,
              call = inscribeCycle 1 (lit ''summary'')
                       (sha256 [0x63, 0x6f, 0x6e, 0x74, 0x65, 0x6e, 0x74]),
              params = \<lparr>tx_from = lit ''0xA1'', tx_nonce = 5, tx_gasPrice = 10\<rparr>,
              gas = 200000, chainId = 8453\<rparr> = Inr \<lparr>raw_transaction = [5], hash = []\<rparr>"
    by (simp add: sim_client_def sim_sign_def)
  have 5: "eth_send_raw_transaction stalled_node
             (raw_transaction \<lparr>raw_transaction = [5], hash = []\<rparr>) \<lparr>accepted = []\<rparr> =
           (Inr [0xde, 0xad, 0xbe, 0xef], \<lparr>accepted = [[5]]\<rparr>)"
    by (simp add: stalled_node_def sim_node_def)
  have 6: "eth_wait_for_transaction_receipt stalled_node [0xde, 0xad, 0xbe, 0xef]
         \<lparr>accepted = [[5]]\<rparr> = (Inl TimeExhausted, \<lparr>accepted = [[5]]\<rparr>)"
    by (simp add: stalled_node_def)
  show ?thesis
    using sample_summary sample_block sample_encode 6
      inscribe_confirmation_timeout [OF sample_summary sample_block sample_encode 1 2 3 4 5 6,
        of "[]"]
    by (simp add: sim_client_def)
qed

section \<open>The content digest and the proof identifier\<close>

text \<open>The model of SHA-256 on a test vector: the digest of the bytes of \<open>content\<close>.\<close>

lemma sha256_content:
  "hex (sha256 [0x63, 0x6f, 0x6e, 0x74, 0x65, 0x6e, 0x74]) =
     lit ''ed7002b439e9ac845f22357d822bac1444730fbdb6016d3ec9432297b9ec9f73''"
  by code_simp

lemma inscribe_built_calls:
  assumes "c \<in> set (built_calls (network_calls nd (inscribe self block summary content) s))"
  shows "\<exists>block_type encoded. BLOCK_TYPE_MAP block = Some block_type
           \<and> encode content = Inr encoded
           \<and> c = inscribeCycle block_type summary (sha256 encoded)"
proof -
  from assms have len: "length summary \<le> 140"
    by (auto simp: inscribe_def network_calls_def built_calls_simps split: if_splits)
  from assms len obtain block_type where bt: "BLOCK_TYPE_MAP block = Some block_type"
    by (auto simp: inscribe_def network_calls_def built_calls_simps split: option.splits)
  from assms len bt obtain encoded where enc: "encode content = Inr encoded"
    by (auto simp: inscribe_def network_calls_def built_calls_simps split: sum.splits)
  from assms have "c = inscribeCycle block_type summary (sha256 encoded)"
    unfolding inscribe_checked [OF len bt enc]
    by (auto simp: network_calls_def then_run_def built_calls_simps
          split: prod.splits sum.splits)
  with bt enc show ?thesis by blast
qed

lemma sample_calls:
  "built_calls (network_calls sim_node
     (inscribe sim_client (lit ''research'') (lit ''summary'') (lit ''content''))
     \<lparr>accepted = []\<rparr>) =
   [inscribeCycle 1 (lit ''summary'') (sha256 [0x63, 0x6f, 0x6e, 0x74, 0x65, 0x6e, 0x74])]"
  using sample_run by (simp add: network_calls_def sim_start_def built_calls_simps)

lemma other_calls:
  "built_calls (network_calls stalled_node
     (inscribe sim_client (lit ''build'') (lit ''other'') (lit ''content''))
     \<lparr>accepted = [[5]]\<rparr>) =
   [inscribeCycle 0 (lit ''other'') (sha256 [0x63, 0x6f, 0x6e, 0x74, 0x65, 0x6e, 0x74])]"
proof -
  have b: "BLOCK_TYPE_MAP (lit ''build'') = Some 0"
    by (simp add: BLOCK_TYPE_MAP_def lit_def)
  have l: "length (lit ''other'') \<le> 140"
    by (simp add: lit_def)
  show ?thesis
    unfolding inscribe_checked [OF l b sample_encode]
    by (simp add: network_calls_def stalled_node_def sim_node_def sim_client_def sim_sign_def
        then_run_def built_calls_simps)
qed

text \<open>
  C6. The hash that \<open>inscribe\<close> commits on chain is the SHA-256 digest of the UTF-8
  bytes of the content: it is 32 bytes long, and two invocations on the same content
  commit the same digest, whatever the client, the category, the summary, the node and
  the node's state.
\<close>

theorem content_digest_depends_on_content_only:
  assumes "c1 \<in> set (built_calls (network_calls nd1 (inscribe self1 block1 summary1 content) s1))"
    and "c2 \<in> set (built_calls (network_calls nd2 (inscribe self2 block2 summary2 content) s2))"
  shows "hash_argument c1 = hash_argument c2
       \<and> length (hash_argument c1) = 32
       \<and> (\<exists>encoded. encode content = Inr encoded \<and> hash_argument c1 = sha256 encoded)"
proof -
  from inscribe_built_calls [OF assms(1)] obtain bt1 enc1 where
    1: "encode content = Inr enc1" "c1 = inscribeCycle bt1 summary1 (sha256 enc1)" by blast
  from inscribe_built_calls [OF assms(2)] obtain bt2 enc2 where
    2: "encode content = Inr enc2" "c2 = inscribeCycle bt2 summary2 (sha256 enc2)" by blast
  from 1 2 show ?thesis by (simp add: length_sha256)
qed

theorem content_digest_depends_on_content_only_witness:
  "built_calls (network_calls sim_node
     (inscribe sim_client (lit ''research'') (lit ''summary'') (lit ''content''))
     \<lparr>accepted = []\<rparr>) =
   [inscribeCycle 1 (lit ''summary'') (sha256 [0x63, 0x6f, 0x6e, 0x74, 0x65, 0x6e, 0x74])]
   \<and> built_calls (network_calls stalled_node
     (inscribe sim_client (lit ''build'') (lit ''other'') (lit ''content''))
     \<lparr>accepted = [[5]]\<rparr>) =
   [inscribeCycle 0 (lit ''other'') (sha256 [0x63, 0x6f, 0x6e, 0x74, 0x65, 0x6e, 0x74])]
   \<and> length (sha256 [0x63, 0x6f, 0x6e, 0x74, 0x65, 0x6e, 0x74]) = 32
   \<and> encode (lit ''content'') = Inr [0x63, 0x6f, 0x6e, 0x74, 0x65, 0x6e, 0x74]"
proof -
  have 1: "inscribeCycle 1 (lit ''summary'') (sha256 [0x63, 0x6f, 0x6e, 0x74, 0x65, 0x6e, 0x74])
      \<in> set (built_calls (network_calls sim_node
            (inscribe sim_client (lit ''research'') (lit ''summary'') (lit ''content''))
            \<lparr>accepted = []\<rparr>))"
    by (simp only: sample_calls list.set insertI1)
  have 2: "inscribeCycle 0 (lit ''other'') (sha256 [0x63, 0x6f, 0x6e, 0x74, 0x65, 0x6e, 0x74])
      \<in> set (built_calls (network_calls stalled_node
            (inscribe sim_client (lit ''build'') (lit ''other'') (lit ''content''))
            \<lparr>accepted = [[5]]\<rparr>))"
    by (simp only: other_calls list.set insertI1)
  from content_digest_depends_on_content_only [OF 1 2]
  have "length (sha256 [0x63, 0x6f, 0x6e, 0x74, 0x65, 0x6e, 0x74]) = 32"
    by simp
  with sample_calls other_calls sample_encode show ?thesis by blast
qed

text \<open>On every node, the proof identifier of a result is the local digest.\<close>

lemma inscribe_proof_hash_any_node:
  assumes "run nd (inscribe self block summary content) (s, rqs) = (Inr r, (s', rqs'))"
  shows "\<exists>encoded. encode content = Inr encoded
           \<and> proof_hash r = lit ''0x'' @ hex (sha256 encoded)"
  using run_inscribe_Inr [OF assms] by auto

text \<open>
  C1 fails on the code.  The contract emits the proof hash \<open>0x11...11\<close> in the receipt of
  the simulated node, and the result of \<open>inscribe\<close> carries the SHA-256 digest of the
  content instead: the receipt's \<open>logs\<close> are never read.
\<close>

theorem inscribe_proof_hash_is_local_digest:
  "fst (run sim_node
          (inscribe sim_client (lit ''research'') (lit ''summary'') (lit ''content''))
          sim_start) =
     Inr \<lparr>InscribeResult.tx_hash = lit ''deadbeef'',
          proof_hash = lit ''0xed7002b439e9ac845f22357d822bac1444730fbdb6016d3ec9432297b9ec9f73'',
          cycle_id = 1000, network_cycle = 42\<rparr>
   \<and> fst (eth_wait_for_transaction_receipt sim_node [0xde, 0xad, 0xbe, 0xef]
            \<lparr>accepted = [[5]]\<rparr>) =
     Inr \<lparr>blockNumber = 1000, status = 1, logs = [replicate 32 0x11]\<rparr>"
proof -
  have "lit ''0x'' @ hex (sha256 [0x63, 0x6f, 0x6e, 0x74, 0x65, 0x6e, 0x74]) =
        lit ''0xed7002b439e9ac845f22357d822bac1444730fbdb6016d3ec9432297b9ec9f73''"
    unfolding sha256_content by (simp add: lit_def)
  then show ?thesis
    by (simp add: sample_run) (simp add: sim_node_def sim_proof_def)
qed

section \<open>The synchronous wrapper\<close>

text \<open>
  C8, as amended.  Called where no event loop is running, \<open>inscribe_sync\<close> gives what
  awaiting \<open>inscribe\<close> gives on the same node and world: the same result or the same
  exception, and the same node state and network calls.  Called where a loop is running,
  it raises the \<open>RuntimeError\<close> of \<open>asyncio.run\<close> and \<open>inscribe\<close> is not run.
\<close>

theorem inscribe_sync_same_as_await:
  "(\<not> running \<longrightarrow>
      inscribe_sync nd self block summary content running w =
      run nd (inscribe self block summary content) w)
   \<and> (running \<longrightarrow>
      inscribe_sync nd self block summary content running w =
      (Inl (RuntimeError (lit ''asyncio.run() cannot be called from a running event loop'')), w))"
  by (simp add: inscribe_sync_def asyncio_run_def)

theorem inscribe_sync_same_as_await_witness:
  "inscribe_sync sim_node sim_client (lit ''research'') (lit ''summary'') (lit ''content'')
     False sim_start =
   run sim_node (inscribe sim_client (lit ''research'') (lit ''summary'') (lit ''content''))
     sim_start
   \<and> fst (inscribe_sync sim_node sim_client (lit ''research'') (lit ''summary'')
            (lit ''content'') False sim_start) =
     Inr \<lparr>InscribeResult.tx_hash = lit ''deadbeef'',
          proof_hash = lit ''0x'' @ hex (sha256 [0x63, 0x6f, 0x6e, 0x74, 0x65, 0x6e, 0x74]),
          cycle_id = 1000, network_cycle = 42\<rparr>"
  using inscribe_sync_same_as_await [of False sim_node sim_client "lit ''research''"
      "lit ''summary''" "lit ''content''" sim_start] sample_run
  by simp

text \<open>
  C8 as stated fails inside a running event loop: same input, same node, and the wrapper
  raises while the awaited coroutine returns its result.
\<close>

theorem inscribe_sync_in_running_loop:
  "inscribe_sync sim_node sim_client (lit ''research'') (lit ''summary'') (lit ''content'')
     True sim_start =
   (Inl (RuntimeError (lit ''asyncio.run() cannot be called from a running event loop'')),
    sim_start)
   \<and> fst (run sim_node
            (inscribe sim_client (lit ''research'') (lit ''summary'') (lit ''content''))
            sim_start) =
     Inr \<lparr>InscribeResult.tx_hash = lit ''deadbeef'',
          proof_hash = lit ''0x'' @ hex (sha256 [0x63, 0x6f, 0x6e, 0x74, 0x65, 0x6e, 0x74]),
          cycle_id = 1000, network_cycle = 42\<rparr>"
  by (simp add: inscribe_sync_def asyncio_run_def sample_run)

section \<open>Sequence numbers\<close>











end
